theory Spec2Isabelle
  imports Main "HOL-Library.Word"
begin

section \<open>swift-reflection-dump: locating the reflection sections of a binary\<close>

text \<open>
  A shallow embedding of \<^verbatim>\<open>tools/swift-reflection-dump/swift-reflection-dump.cpp\<close>:
  \<^verbatim>\<open>getSectionRef\<close> (lines 79-92), \<^verbatim>\<open>unwrap\<close> (lines 71-77) and
  \<^verbatim>\<open>doDumpReflectionSections\<close> (lines 94-221). The LLVM object library the tool
  calls (\<^verbatim>\<open>createBinary\<close>, \<^verbatim>\<open>getObjectForArch\<close>, the section table of an
  object file) is not part of the file; what the tool reads of it is modelled as data.
\<close>

subsection \<open>Data\<close>

text \<open>
  The tool is built for a 64-bit host: a pointer is a 64-bit word, \<^verbatim>\<open>nullptr\<close> is the
  word 0, and pointer arithmetic is addition modulo \<open>2 ^ 64\<close>. A \<^verbatim>\<open>StringRef\<close> is
  a pointer to the first byte with a length (a \<^verbatim>\<open>size_t\<close>, 64 bits as well);
  \<^verbatim>\<open>begin()\<close> is \<^verbatim>\<open>Data\<close> and \<^verbatim>\<open>end()\<close> is \<^verbatim>\<open>Data + Length\<close>, computed without
  any check.
\<close>

type_synonym pointer = "64 word"

definition nullptr :: pointer where
  "nullptr = 0"

record StringRef =
  Data :: pointer
  Length :: "64 word"

definition StringRef_begin :: "StringRef \<Rightarrow> pointer" where
  "StringRef_begin s = Data s"

definition StringRef_end :: "StringRef \<Rightarrow> pointer" where
  "StringRef_end s = Data s + Length s"

text \<open>
  The view lies within the address space: the address of its first byte plus its
  length does not pass \<open>2 ^ 64\<close>, so that \<^verbatim>\<open>end()\<close> does not wrap around.
\<close>

definition noWrap :: "StringRef \<Rightarrow> bool" where
  "noWrap s \<longleftrightarrow> unat (Data s) + unat (Length s) < 2 ^ 64"

text \<open>
  A section of an object file, as far as the tool reads it: \<open>getName\<close> is the name that
  \<^verbatim>\<open>section.getName(sectionName)\<close> stores, \<open>getContents\<close> the view that
  \<^verbatim>\<open>getContents\<close> stores. The tool ignores the error code of both calls.
\<close>

record Section =
  getName :: string
  getContents :: StringRef

text \<open>An object file is its section table, in the order \<^verbatim>\<open>sections()\<close> iterates.\<close>

record ObjectFile =
  sections :: "Section list"

text \<open>
  A \<^verbatim>\<open>SectionRef\<close> is \<open>Some\<close> section of the object, or \<open>None\<close> for the
  default-constructed \<^verbatim>\<open>SectionRef()\<close>, whose \<^verbatim>\<open>getObject()\<close> is \<^verbatim>\<open>nullptr\<close>.
\<close>

type_synonym SectionRef = "Section option"

subsection \<open>getSectionRef\<close>

text \<open>
  Lines 85-89, the inner loop: the section name is compared with each desired name in
  turn by \<^verbatim>\<open>StringRef::equals\<close> (same length and same bytes).
\<close>

fun equalsAny :: "string \<Rightarrow> string list \<Rightarrow> bool" where
  "equalsAny sectionName [] = False"
| "equalsAny sectionName (desiredName # rest) =
     (if sectionName = desiredName then True else equalsAny sectionName rest)"

text \<open>Lines 82-91, the outer loop over the section table.\<close>

fun scanSections :: "Section list \<Rightarrow> string list \<Rightarrow> SectionRef" where
  "scanSections [] anySectionNames = None"
| "scanSections (sec # rest) anySectionNames =
     (if equalsAny (getName sec) anySectionNames then Some sec
      else scanSections rest anySectionNames)"

definition getSectionRef :: "ObjectFile \<Rightarrow> string list \<Rightarrow> SectionRef" where
  "getSectionRef objectFile anySectionNames =
     scanSections (sections objectFile) anySectionNames"

text \<open>
  The Section Locator in the words of the specification: the first section, in
  declaration order, whose name is exactly one of the aliases; absent if there is none.
\<close>

definition findSection :: "ObjectFile \<Rightarrow> string list \<Rightarrow> Section option" where
  "findSection object aliasList =
     List.find (\<lambda>sec. getName sec \<in> set aliasList) (sections object)"

text \<open>An example object: similar names around one exact match.\<close>

definition similarNames :: ObjectFile where
  "similarNames = \<lparr>sections =
     [\<lparr>getName = ''__swift3_fieldmd_old'', getContents = \<lparr>Data = 4096, Length = 8\<rparr>\<rparr>,
      \<lparr>getName = ''__swift3_field'', getContents = \<lparr>Data = 4104, Length = 8\<rparr>\<rparr>,
      \<lparr>getName = ''__SWIFT3_FIELDMD'', getContents = \<lparr>Data = 4112, Length = 8\<rparr>\<rparr>,
      \<lparr>getName = ''.swift3_fieldmd'', getContents = \<lparr>Data = 4120, Length = 16\<rparr>\<rparr>,
      \<lparr>getName = ''__swift3_fieldmd'', getContents = \<lparr>Data = 4136, Length = 24\<rparr>\<rparr>]\<rparr>"

subsection \<open>What the tool reads of the LLVM object library\<close>

text \<open>
  The \<^verbatim>\<open>std::error_code\<close> values that \<^verbatim>\<open>createBinary\<close> and
  \<^verbatim>\<open>getObjectForArch\<close> hand to \<^verbatim>\<open>unwrap\<close>. The tool only prints their
  \<^verbatim>\<open>message()\<close>.
\<close>

datatype error_code =
  no_such_file_or_directory | permission_denied | invalid_file_type | arch_not_found

text \<open>
  A successful \<^verbatim>\<open>createBinary\<close> yields an \<^verbatim>\<open>llvm::object::Binary\<close>. Line 108 asks
  whether it is an \<^verbatim>\<open>ObjectFile\<close>, line 111 takes anything else for a
  \<^verbatim>\<open>MachOUniversalBinary\<close>. The class has further subclasses, which
  \<^verbatim>\<open>createBinary\<close> also produces: an \<^verbatim>\<open>Archive\<close> (line 21 includes its header) is
  neither of the two. A universal binary is its list of slices, each an architecture
  name with the object file of that slice.
\<close>

datatype Binary =
  ObjectFileBinary ObjectFile
| MachOUniversalBinary "(string \<times> ObjectFile) list"
| Archive

text \<open>
  Modelled from the spec: \<^verbatim>\<open>MachOUniversalBinary::getObjectForArch\<close> is LLVM code and
  is not in the source file. Section 4.2 of the specification (Slice Selector): the
  architecture name is compared for exact equality with the declared name of each
  slice, the first matching slice wins, and the call fails with the
  architecture-not-found error when no slice matches.
\<close>

fun getObjectForArch :: "(string \<times> ObjectFile) list \<Rightarrow> string \<Rightarrow> error_code + ObjectFile" where
  "getObjectForArch [] arch = Inl arch_not_found"
| "getObjectForArch ((sliceArch, sliceObject) # rest) arch =
     (if sliceArch = arch then Inr sliceObject else getObjectForArch rest arch)"

subsection \<open>What a run does\<close>

text \<open>
  A \<^verbatim>\<open>ReflectionSection\<close> is a pair of pointers; the \<^verbatim>\<open>ReflectionInfo\<close> handed to
  \<^verbatim>\<open>TypeRefBuilder::addReflectionInfo\<close> (lines 208-215) holds the file name and the
  five sections, named here after the local variables it is built from.
\<close>

record ReflectionSection =
  Begin :: pointer
  End :: pointer

record ReflectionInfo =
  ImageName :: string
  fieldSection :: ReflectionSection
  associatedTypeSection :: ReflectionSection
  builtinTypeSection :: ReflectionSection
  typeRefSection :: ReflectionSection
  reflectionStringsSection :: ReflectionSection

text \<open>
  What is observable of one run of \<^verbatim>\<open>doDumpReflectionSections\<close>:
  \<^item> how it ends: it returns a status (lines 124, 176, 195, 220), or \<^verbatim>\<open>unwrap\<close> calls
    \<^verbatim>\<open>exit\<close> (line 76), or the checked \<^verbatim>\<open>cast\<close> of line 111 meets a binary that is
    not a universal binary. In a build with assertions the cast aborts the process. In
    a build without them the behaviour is undefined: line 112 goes on to call
    \<^verbatim>\<open>getObjectForArch\<close> on a binary that is no universal binary, and nothing can be
    said of what follows. The outcome \<open>CastFailed\<close> stands for both: a run with that
    outcome is recorded up to the cast only, and its other fields say what had happened
    when line 111 was reached, not what a build without assertions does afterwards;
  \<^item> what was written to \<^verbatim>\<open>std::cerr\<close>, one item for each \<^verbatim>\<open><<\<close>;
  \<^item> the calls made to load the binary, select a slice and look sections up, in order;
  \<^item> the \<^verbatim>\<open>ReflectionInfo\<close> given to the builder, whose sections are then dumped
    (lines 207-218), or \<open>None\<close> when the run never gets there.
\<close>

datatype outcome = Returned int | Exited int | CastFailed

datatype cerr_item = Text string | Message error_code

datatype call = CreateBinary string | GetObjectForArch string | GetSectionRef "string list"

record run =
  outcome :: outcome
  cerr :: "cerr_item list"
  calls :: "call list"
  info :: "ReflectionInfo option"

definition EXIT_SUCCESS :: int where
  "EXIT_SUCCESS = 0"

definition EXIT_FAILURE :: int where
  "EXIT_FAILURE = 1"

subsection \<open>unwrap\<close>

text \<open>
  Lines 71-77. A value is passed on; an error is reported on \<^verbatim>\<open>std::cerr\<close> and the
  process exits with \<^verbatim>\<open>EXIT_FAILURE\<close>. The run that ends there is the left summand; the
  caller fills in the calls made so far.
\<close>

definition unwrap :: "error_code + 'a \<Rightarrow> run + 'a" where
  "unwrap v =
     (case v of
        Inr x \<Rightarrow> Inr x
      | Inl e \<Rightarrow>
          Inl \<lparr>outcome = Exited EXIT_FAILURE,
               cerr = [Text ''swift-reflection-test error: '', Message e, Text ''\<newline>''],
               calls = [], info = None\<rparr>)"

subsection \<open>doDumpReflectionSections\<close>

text \<open>The five lists of section names, lines 118, 139, 155, 170 and 189.\<close>

definition fieldSectionNames :: "string list" where
  "fieldSectionNames = [''__swift3_fieldmd'', ''.swift3_fieldmd'']"

definition associatedTypeSectionNames :: "string list" where
  "associatedTypeSectionNames = [''__swift3_assocty'', ''.swift3_assocty'']"

definition builtinTypeSectionNames :: "string list" where
  "builtinTypeSectionNames = [''__swift3_builtin'', ''.swift3_builtin'']"

definition typeRefSectionNames :: "string list" where
  "typeRefSectionNames = [''__swift3_typeref'', ''.swift3_typeref'']"

definition reflectionStringsSectionNames :: "string list" where
  "reflectionStringsSectionNames = [''__swift3_reflstr'', ''.swift3_reflstr'']"

text \<open>
  The section built from the contents of a section that was found, as in lines 127-133:
  \<^verbatim>\<open>{contents.begin(), contents.end()}\<close>.
\<close>

definition contentsRange :: "Section \<Rightarrow> ReflectionSection" where
  "contentsRange sectionRef =
     \<lparr>Begin = StringRef_begin (getContents sectionRef),
      End = StringRef_end (getContents sectionRef)\<rparr>"

text \<open>
  Lines 116-220: the part of the function after \<^verbatim>\<open>objectFile\<close> is bound. The three
  required sections end the run with a message when they are missing; the two optional
  ones start as \<^verbatim>\<open>{nullptr, nullptr}\<close> and are overwritten when found.
\<close>

definition dumpSections :: "ObjectFile \<Rightarrow> string \<Rightarrow> run" where
  "dumpSections objectFile binaryFilename =
     (case getSectionRef objectFile fieldSectionNames of
        None \<Rightarrow>
          \<lparr>outcome = Returned EXIT_FAILURE,
           cerr = [Text binaryFilename,
                   Text '' doesn't have a field reflection section!\<newline>''],
           calls = [GetSectionRef fieldSectionNames],
           info = None\<rparr>
      | Some fieldSectionRef \<Rightarrow>
          let fieldSection = contentsRange fieldSectionRef;
              associatedTypeSection =
                (case getSectionRef objectFile associatedTypeSectionNames of
                   None \<Rightarrow> \<lparr>Begin = nullptr, End = nullptr\<rparr>
                 | Some associatedTypeSectionRef \<Rightarrow> contentsRange associatedTypeSectionRef);
              builtinTypeSection =
                (case getSectionRef objectFile builtinTypeSectionNames of
                   None \<Rightarrow> \<lparr>Begin = nullptr, End = nullptr\<rparr>
                 | Some builtinTypeSectionRef \<Rightarrow> contentsRange builtinTypeSectionRef)
          in
          (case getSectionRef objectFile typeRefSectionNames of
             None \<Rightarrow>
               \<lparr>outcome = Returned EXIT_FAILURE,
                cerr = [Text binaryFilename,
                        Text '' doesn't have an associated typeref section!\<newline>''],
                calls = [GetSectionRef fieldSectionNames,
                         GetSectionRef associatedTypeSectionNames,
                         GetSectionRef builtinTypeSectionNames,
                         GetSectionRef typeRefSectionNames],
                info = None\<rparr>
           | Some typeRefSectionRef \<Rightarrow>
               let typeRefSection = contentsRange typeRefSectionRef in
               (case getSectionRef objectFile reflectionStringsSectionNames of
                  None \<Rightarrow>
                    \<lparr>outcome = Returned EXIT_FAILURE,
                     cerr = [Text binaryFilename,
                             Text '' doesn't have an associated reflection strings section!\<newline>''],
                     calls = [GetSectionRef fieldSectionNames,
                              GetSectionRef associatedTypeSectionNames,
                              GetSectionRef builtinTypeSectionNames,
                              GetSectionRef typeRefSectionNames,
                              GetSectionRef reflectionStringsSectionNames],
                     info = None\<rparr>
                | Some reflectionStringsSectionRef \<Rightarrow>
                    let reflectionStringsSection = contentsRange reflectionStringsSectionRef in
                    \<lparr>outcome = Returned EXIT_SUCCESS,
                     cerr = [],
                     calls = [GetSectionRef fieldSectionNames,
                              GetSectionRef associatedTypeSectionNames,
                              GetSectionRef builtinTypeSectionNames,
                              GetSectionRef typeRefSectionNames,
                              GetSectionRef reflectionStringsSectionNames],
                     info = Some \<lparr>ImageName = binaryFilename,
                                  fieldSection = fieldSection,
                                  associatedTypeSection = associatedTypeSection,
                                  builtinTypeSection = builtinTypeSection,
                                  typeRefSection = typeRefSection,
                                  reflectionStringsSection = reflectionStringsSection\<rparr>\<rparr>)))"

text \<open>The run \<open>r\<close>, continued from a run that had already made the calls \<open>cs\<close>.\<close>

definition after :: "call list \<Rightarrow> run \<Rightarrow> run" where
  "after cs r = r\<lparr>calls := cs @ calls r\<rparr>"

text \<open>
  Lines 94-221. \<open>createBinary\<close> is the file system as \<^verbatim>\<open>llvm::object::createBinary\<close>
  sees it: for each path an error or the binary found there. In the last branch the
  binary is neither an object file nor a universal binary, and the record is that of the
  run up to the cast of line 111 (see \<open>CastFailed\<close> above).
\<close>

definition doDumpReflectionSections ::
    "(string \<Rightarrow> error_code + Binary) \<Rightarrow> string \<Rightarrow> string \<Rightarrow> run" where
  "doDumpReflectionSections createBinary binaryFilename arch =
     (case unwrap (createBinary binaryFilename) of
        Inl stopped \<Rightarrow> after [CreateBinary binaryFilename] stopped
      | Inr binaryFile \<Rightarrow>
          (case binaryFile of
             ObjectFileBinary objectFile \<Rightarrow>
               after [CreateBinary binaryFilename] (dumpSections objectFile binaryFilename)
           | MachOUniversalBinary universal \<Rightarrow>
               (case unwrap (getObjectForArch universal arch) of
                  Inl stopped \<Rightarrow>
                    after [CreateBinary binaryFilename, GetObjectForArch arch] stopped
                | Inr objectFile \<Rightarrow>
                    after [CreateBinary binaryFilename, GetObjectForArch arch]
                      (dumpSections objectFile binaryFilename))
           | Archive \<Rightarrow>
               \<lparr>outcome = CastFailed, cerr = [],
                calls = [CreateBinary binaryFilename], info = None\<rparr>))"

subsection \<open>The vocabulary of the specification\<close>

text \<open>
  The five categories of the specification, each with the alias list the source uses
  for it and with its classification: the source ends the run when a Field, TypeRef
  or ReflectionStrings section is missing, and carries on without an AssociatedType or
  BuiltinType section.
\<close>

datatype SectionCategory = Field | AssociatedType | BuiltinType | TypeRef | ReflectionStrings

fun aliases :: "SectionCategory \<Rightarrow> string list" where
  "aliases Field = fieldSectionNames"
| "aliases AssociatedType = associatedTypeSectionNames"
| "aliases BuiltinType = builtinTypeSectionNames"
| "aliases TypeRef = typeRefSectionNames"
| "aliases ReflectionStrings = reflectionStringsSectionNames"

fun required :: "SectionCategory \<Rightarrow> bool" where
  "required Field = True"
| "required AssociatedType = False"
| "required BuiltinType = False"
| "required TypeRef = True"
| "required ReflectionStrings = True"

text \<open>The section table has a section of the category, under one of its aliases.\<close>

definition hasSection :: "ObjectFile \<Rightarrow> SectionCategory \<Rightarrow> bool" where
  "hasSection obj c = (\<exists>sec \<in> set (sections obj). getName sec \<in> set (aliases c))"

text \<open>The bundle as a mapping from categories to byte ranges, and the absent sentinel.\<close>

fun bundleRange :: "ReflectionInfo \<Rightarrow> SectionCategory \<Rightarrow> ReflectionSection" where
  "bundleRange ri Field = fieldSection ri"
| "bundleRange ri AssociatedType = associatedTypeSection ri"
| "bundleRange ri BuiltinType = builtinTypeSection ri"
| "bundleRange ri TypeRef = typeRefSection ri"
| "bundleRange ri ReflectionStrings = reflectionStringsSection ri"

definition absentSentinel :: ReflectionSection where
  "absentSentinel = \<lparr>Begin = nullptr, End = nullptr\<rparr>"

text \<open>
  The object file that lines 106-114 bind to \<^verbatim>\<open>objectFile\<close>: the binary itself, or the
  slice of a universal binary for the requested architecture; none when there is no
  such slice or the binary is of another kind.
\<close>

definition objectFileOf :: "Binary \<Rightarrow> string \<Rightarrow> ObjectFile option" where
  "objectFileOf binaryFile arch =
     (case binaryFile of
        ObjectFileBinary objectFile \<Rightarrow> Some objectFile
      | MachOUniversalBinary universal \<Rightarrow>
          (case getObjectForArch universal arch of
             Inl e \<Rightarrow> None
           | Inr objectFile \<Rightarrow> Some objectFile)
      | Archive \<Rightarrow> None)"

text \<open>
  The errors of the specification, as the source shows them. A missing required
  section: the run returns \<^verbatim>\<open>EXIT_FAILURE\<close> after writing the file name and the text
  of that category (lines 123, 175, 194), and hands nothing to the builder.
\<close>

fun diagnostic :: "SectionCategory \<Rightarrow> string option" where
  "diagnostic Field = Some '' doesn't have a field reflection section!\<newline>''"
| "diagnostic TypeRef = Some '' doesn't have an associated typeref section!\<newline>''"
| "diagnostic ReflectionStrings =
     Some '' doesn't have an associated reflection strings section!\<newline>''"
| "diagnostic AssociatedType = None"
| "diagnostic BuiltinType = None"

definition MissingRequiredSectionError :: "string \<Rightarrow> SectionCategory \<Rightarrow> run \<Rightarrow> bool" where
  "MissingRequiredSectionError binaryFilename c r =
     (case diagnostic c of
        None \<Rightarrow> False
      | Some msg \<Rightarrow>
          outcome r = Returned EXIT_FAILURE \<and>
          cerr r = [Text binaryFilename, Text msg] \<and>
          info r = None)"

text \<open>
  A failed load or slice selection: \<^verbatim>\<open>unwrap\<close> reports the error code and exits with
  \<^verbatim>\<open>EXIT_FAILURE\<close>, and nothing is handed to the builder.
\<close>

definition unwrapError :: "error_code \<Rightarrow> run \<Rightarrow> bool" where
  "unwrapError e r =
     (outcome r = Exited EXIT_FAILURE \<and>
      cerr r = [Text ''swift-reflection-test error: '', Message e, Text ''\<newline>''] \<and>
      info r = None)"

subsection \<open>Example binaries\<close>

text \<open>
  The flat object of the specification's first scenario: exactly the three required
  sections, under their first alias.
\<close>

definition threeSections :: ObjectFile where
  "threeSections = \<lparr>sections =
     [\<lparr>getName = ''__swift3_fieldmd'', getContents = \<lparr>Data = 4096, Length = 64\<rparr>\<rparr>,
      \<lparr>getName = ''__swift3_typeref'', getContents = \<lparr>Data = 4160, Length = 32\<rparr>\<rparr>,
      \<lparr>getName = ''__swift3_reflstr'', getContents = \<lparr>Data = 4192, Length = 16\<rparr>\<rparr>]\<rparr>"

text \<open>An object with a field section only: TypeRef and ReflectionStrings are missing.\<close>

definition fieldOnly :: ObjectFile where
  "fieldOnly = \<lparr>sections =
     [\<lparr>getName = ''.text'', getContents = \<lparr>Data = 1024, Length = 512\<rparr>\<rparr>,
      \<lparr>getName = ''.swift3_fieldmd'', getContents = \<lparr>Data = 4096, Length = 64\<rparr>\<rparr>]\<rparr>"

text \<open>An object with the three required sections, whose field section has no bytes.\<close>

definition emptyFieldSection :: ObjectFile where
  "emptyFieldSection = \<lparr>sections =
     [\<lparr>getName = ''__swift3_fieldmd'', getContents = \<lparr>Data = 4096, Length = 0\<rparr>\<rparr>,
      \<lparr>getName = ''__swift3_typeref'', getContents = \<lparr>Data = 4096, Length = 32\<rparr>\<rparr>,
      \<lparr>getName = ''__swift3_reflstr'', getContents = \<lparr>Data = 4128, Length = 16\<rparr>\<rparr>]\<rparr>"

text \<open>
  An object with the three required sections, whose field section is reported with
  contents of 16 bytes starting 8 bytes below the top of the address space.
\<close>

definition wrappedFieldSection :: ObjectFile where
  "wrappedFieldSection = \<lparr>sections =
     [\<lparr>getName = ''__swift3_fieldmd'',
       getContents = \<lparr>Data = 0xFFFFFFFFFFFFFFF8, Length = 16\<rparr>\<rparr>,
      \<lparr>getName = ''__swift3_typeref'', getContents = \<lparr>Data = 4096, Length = 32\<rparr>\<rparr>,
      \<lparr>getName = ''__swift3_reflstr'', getContents = \<lparr>Data = 4128, Length = 16\<rparr>\<rparr>]\<rparr>"

text \<open>The bundle that the three sections of \<open>threeSections\<close> make, for the file \<^verbatim>\<open>a.out\<close>.\<close>

definition threeSectionsInfo :: ReflectionInfo where
  "threeSectionsInfo =
     \<lparr>ImageName = ''a.out'',
      fieldSection = \<lparr>Begin = 4096, End = 4160\<rparr>,
      associatedTypeSection = \<lparr>Begin = 0, End = 0\<rparr>,
      builtinTypeSection = \<lparr>Begin = 0, End = 0\<rparr>,
      typeRefSection = \<lparr>Begin = 4160, End = 4192\<rparr>,
      reflectionStringsSection = \<lparr>Begin = 4192, End = 4208\<rparr>\<rparr>"

text \<open>
  A file system with a flat object, an object without its last two required sections,
  an object with an empty field section, an object whose field section wraps around
  the address space, a universal binary with the slices
  \<^verbatim>\<open>x86_64\<close> and \<^verbatim>\<open>arm64\<close>, and a static archive; no other path exists.
\<close>

definition exampleFiles :: "string \<Rightarrow> error_code + Binary" where
  "exampleFiles path =
     (if path = ''a.out'' then Inr (ObjectFileBinary threeSections)
      else if path = ''partial.o'' then Inr (ObjectFileBinary fieldOnly)
      else if path = ''empty.o'' then Inr (ObjectFileBinary emptyFieldSection)
      else if path = ''wrap.o'' then Inr (ObjectFileBinary wrappedFieldSection)
      else if path = ''fat'' then
        Inr (MachOUniversalBinary [(''x86_64'', fieldOnly), (''arm64'', threeSections)])
      else if path = ''libswiftCore.a'' then Inr Archive
      else Inl no_such_file_or_directory)"

subsection \<open>Properties of getSectionRef\<close>

lemma equalsAny_iff: "equalsAny n names \<longleftrightarrow> n \<in> set names"
  by (induction names) auto

lemma scanSections_find:
  "scanSections secs names = List.find (\<lambda>sec. getName sec \<in> set names) secs"
  by (induction secs) (simp_all add: equalsAny_iff)

lemma getSectionRef_find:
  "getSectionRef obj names = List.find (\<lambda>sec. getName sec \<in> set names) (sections obj)"
  by (simp add: getSectionRef_def scanSections_find)

lemma getSectionRef_None_iff:
  "getSectionRef obj names = None \<longleftrightarrow> (\<forall>sec \<in> set (sections obj). getName sec \<notin> set names)"
  by (auto simp: getSectionRef_find find_None_iff)

lemma getSectionRef_Some_iff:
  "getSectionRef obj names = Some sec \<longleftrightarrow>
     (\<exists>i < length (sections obj). sections obj ! i = sec \<and> getName sec \<in> set names \<and>
        (\<forall>j < i. getName (sections obj ! j) \<notin> set names))"
  by (auto simp: getSectionRef_find find_Some_iff)

text \<open>
  C1. \<^verbatim>\<open>getSectionRef\<close> is the Section Locator of the specification: it returns the
  first section in declaration order whose name equals one of the aliases, character
  for character; it returns the null \<^verbatim>\<open>SectionRef\<close> exactly when no section name is
  equal to an alias. A name that only contains an alias, or is a prefix of one, or
  differs in case, is not equal and so does not match.
\<close>

theorem getSectionRef_first_exact_match:
  "getSectionRef obj names = findSection obj names \<and>
   (getSectionRef obj names = None \<longleftrightarrow>
      (\<forall>sec \<in> set (sections obj). \<forall>a \<in> set names. getName sec \<noteq> a)) \<and>
   (\<forall>sec. getSectionRef obj names = Some sec \<longleftrightarrow>
      (\<exists>i < length (sections obj). sections obj ! i = sec \<and>
         (\<exists>a \<in> set names. getName sec = a) \<and>
         (\<forall>j < i. \<forall>a \<in> set names. getName (sections obj ! j) \<noteq> a)))"
proof (intro conjI allI)
  show "getSectionRef obj names = findSection obj names"
    by (simp add: getSectionRef_find findSection_def)
  show "getSectionRef obj names = None \<longleftrightarrow>
      (\<forall>sec \<in> set (sections obj). \<forall>a \<in> set names. getName sec \<noteq> a)"
    by (auto simp: getSectionRef_None_iff)
  fix sec
  show "getSectionRef obj names = Some sec \<longleftrightarrow>
      (\<exists>i < length (sections obj). sections obj ! i = sec \<and>
         (\<exists>a \<in> set names. getName sec = a) \<and>
         (\<forall>j < i. \<forall>a \<in> set names. getName (sections obj ! j) \<noteq> a))"
    unfolding getSectionRef_Some_iff by (rule ex_cong) auto
qed

theorem getSectionRef_first_exact_match_witness:
  "getSectionRef similarNames [''__swift3_fieldmd'', ''.swift3_fieldmd''] =
     Some \<lparr>getName = ''.swift3_fieldmd'', getContents = \<lparr>Data = 4120, Length = 16\<rparr>\<rparr> \<and>
   findSection similarNames [''__swift3_fieldmd'', ''.swift3_fieldmd''] =
     Some \<lparr>getName = ''.swift3_fieldmd'', getContents = \<lparr>Data = 4120, Length = 16\<rparr>\<rparr> \<and>
   getSectionRef similarNames [''__swift3_typeref'', ''.swift3_typeref''] = None \<and>
   list_all (\<lambda>sec. getName sec \<notin> set [''__swift3_typeref'', ''.swift3_typeref''])
     (sections similarNames)"
proof -
  have found: "getSectionRef similarNames [''__swift3_fieldmd'', ''.swift3_fieldmd''] =
     Some \<lparr>getName = ''.swift3_fieldmd'', getContents = \<lparr>Data = 4120, Length = 16\<rparr>\<rparr>"
    by (simp add: getSectionRef_def similarNames_def)
  have absent: "getSectionRef similarNames [''__swift3_typeref'', ''.swift3_typeref''] = None"
    by (simp add: getSectionRef_def similarNames_def)
  from getSectionRef_first_exact_match
    [of similarNames "[''__swift3_fieldmd'', ''.swift3_fieldmd'']"] found
  have spec: "findSection similarNames [''__swift3_fieldmd'', ''.swift3_fieldmd''] =
     Some \<lparr>getName = ''.swift3_fieldmd'', getContents = \<lparr>Data = 4120, Length = 16\<rparr>\<rparr>"
    by simp
  from getSectionRef_first_exact_match
    [of similarNames "[''__swift3_typeref'', ''.swift3_typeref'']"] absent
  have none: "list_all (\<lambda>sec. getName sec \<notin> set [''__swift3_typeref'', ''.swift3_typeref''])
     (sections similarNames)"
    unfolding list_all_iff by blast
  from found spec absent none show ?thesis by blast
qed

text \<open>
  C7. The section returned does not depend on the order of the alias list, nor on
  which alias matched: two lists with the same set of aliases give the same section,
  and that section is the first one in the object's own section-table order whose name
  is among the aliases (none when there is no such section).
\<close>

theorem getSectionRef_alias_order:
  "set names = set names' \<Longrightarrow>
     getSectionRef obj names = getSectionRef obj names' \<and>
     getSectionRef obj names' = findSection obj names \<and>
     (\<forall>sec. getSectionRef obj names' = Some sec \<longleftrightarrow>
        (\<exists>i < length (sections obj). sections obj ! i = sec \<and> getName sec \<in> set names \<and>
           (\<forall>j < i. getName (sections obj ! j) \<notin> set names))) \<and>
     (getSectionRef obj names' = None \<longleftrightarrow>
        (\<forall>sec \<in> set (sections obj). getName sec \<notin> set names))"
proof (intro conjI allI)
  assume eq: "set names = set names'"
  then show "getSectionRef obj names = getSectionRef obj names'"
    by (simp add: getSectionRef_find)
  from eq show "getSectionRef obj names' = findSection obj names"
    by (simp add: getSectionRef_find findSection_def)
  from eq show "getSectionRef obj names' = None \<longleftrightarrow>
      (\<forall>sec \<in> set (sections obj). getName sec \<notin> set names)"
    by (simp add: getSectionRef_None_iff)
  fix sec
  from eq show "getSectionRef obj names' = Some sec \<longleftrightarrow>
      (\<exists>i < length (sections obj). sections obj ! i = sec \<and> getName sec \<in> set names \<and>
         (\<forall>j < i. getName (sections obj ! j) \<notin> set names))"
    by (simp add: getSectionRef_Some_iff)
qed

theorem getSectionRef_alias_order_witness:
  "set [''__swift3_fieldmd'', ''.swift3_fieldmd''] = set [''.swift3_fieldmd'', ''__swift3_fieldmd''] \<and>
   getSectionRef similarNames [''__swift3_fieldmd'', ''.swift3_fieldmd''] =
     Some \<lparr>getName = ''.swift3_fieldmd'', getContents = \<lparr>Data = 4120, Length = 16\<rparr>\<rparr> \<and>
   getSectionRef similarNames [''.swift3_fieldmd'', ''__swift3_fieldmd''] =
     Some \<lparr>getName = ''.swift3_fieldmd'', getContents = \<lparr>Data = 4120, Length = 16\<rparr>\<rparr> \<and>
   findSection similarNames [''__swift3_fieldmd'', ''.swift3_fieldmd''] =
     Some \<lparr>getName = ''.swift3_fieldmd'', getContents = \<lparr>Data = 4120, Length = 16\<rparr>\<rparr>"
proof -
  have h: "set [''__swift3_fieldmd'', ''.swift3_fieldmd''] =
           set [''.swift3_fieldmd'', ''__swift3_fieldmd'']"
    by auto
  have first: "getSectionRef similarNames [''__swift3_fieldmd'', ''.swift3_fieldmd''] =
     Some \<lparr>getName = ''.swift3_fieldmd'', getContents = \<lparr>Data = 4120, Length = 16\<rparr>\<rparr>"
    by (simp add: getSectionRef_def similarNames_def)
  from getSectionRef_alias_order [OF h, of similarNames] first
  have "getSectionRef similarNames [''.swift3_fieldmd'', ''__swift3_fieldmd''] =
          Some \<lparr>getName = ''.swift3_fieldmd'', getContents = \<lparr>Data = 4120, Length = 16\<rparr>\<rparr>"
    and "findSection similarNames [''__swift3_fieldmd'', ''.swift3_fieldmd''] =
          Some \<lparr>getName = ''.swift3_fieldmd'', getContents = \<lparr>Data = 4120, Length = 16\<rparr>\<rparr>"
    by simp_all
  with h first show ?thesis by blast
qed

subsection \<open>Properties of doDumpReflectionSections\<close>

lemma after_simps:
  "outcome (after cs r) = outcome r" "cerr (after cs r) = cerr r"
  "info (after cs r) = info r" "calls (after cs r) = cs @ calls r"
  by (simp_all add: after_def)

lemma hasSection_getSectionRef: "hasSection obj c \<longleftrightarrow> getSectionRef obj (aliases c) \<noteq> None"
  by (auto simp: hasSection_def getSectionRef_None_iff)

lemma doDump_selected:
  assumes "createBinary f = Inr b" and "objectFileOf b arch = Some obj"
  shows "\<exists>cs. doDumpReflectionSections createBinary f arch = after cs (dumpSections obj f)"
  using assms
  by (cases b)
     (auto simp: doDumpReflectionSections_def objectFileOf_def unwrap_def split: sum.splits)

lemma dumpSections_no_field:
  "\<not> hasSection obj Field \<Longrightarrow> MissingRequiredSectionError f Field (dumpSections obj f)"
  by (simp add: hasSection_getSectionRef dumpSections_def MissingRequiredSectionError_def)

lemma dumpSections_no_typeref:
  "hasSection obj Field \<Longrightarrow> \<not> hasSection obj TypeRef \<Longrightarrow>
   MissingRequiredSectionError f TypeRef (dumpSections obj f)"
  by (auto simp add: hasSection_getSectionRef dumpSections_def MissingRequiredSectionError_def Let_def)

lemma dumpSections_no_reflstr:
  "hasSection obj Field \<Longrightarrow> hasSection obj TypeRef \<Longrightarrow> \<not> hasSection obj ReflectionStrings \<Longrightarrow>
   MissingRequiredSectionError f ReflectionStrings (dumpSections obj f)"
  by (auto simp add: hasSection_getSectionRef dumpSections_def MissingRequiredSectionError_def Let_def)

lemma dumpSections_success:
  assumes "getSectionRef obj fieldSectionNames = Some s1"
    and "getSectionRef obj typeRefSectionNames = Some s4"
    and "getSectionRef obj reflectionStringsSectionNames = Some s5"
  shows "dumpSections obj f =
    \<lparr>outcome = Returned EXIT_SUCCESS, cerr = [],
     calls = [GetSectionRef fieldSectionNames, GetSectionRef associatedTypeSectionNames,
              GetSectionRef builtinTypeSectionNames, GetSectionRef typeRefSectionNames,
              GetSectionRef reflectionStringsSectionNames],
     info = Some \<lparr>ImageName = f,
       fieldSection = contentsRange s1,
       associatedTypeSection =
         (case getSectionRef obj associatedTypeSectionNames of
            None \<Rightarrow> absentSentinel | Some s \<Rightarrow> contentsRange s),
       builtinTypeSection =
         (case getSectionRef obj builtinTypeSectionNames of
            None \<Rightarrow> absentSentinel | Some s \<Rightarrow> contentsRange s),
       typeRefSection = contentsRange s4,
       reflectionStringsSection = contentsRange s5\<rparr>\<rparr>"
  using assms by (simp add: dumpSections_def Let_def absentSentinel_def split: option.splits)

lemma MissingRequiredSectionError_after:
  "MissingRequiredSectionError f c (after cs r) = MissingRequiredSectionError f c r"
  by (simp add: MissingRequiredSectionError_def after_simps split: option.splits)

lemma MissingRequiredSectionError_unique:
  "MissingRequiredSectionError f c r \<Longrightarrow> MissingRequiredSectionError f c' r \<Longrightarrow> c = c'"
  by (cases c; cases c') (auto simp: MissingRequiredSectionError_def)


lemma required_cases: "required c \<longleftrightarrow> c = Field \<or> c = TypeRef \<or> c = ReflectionStrings"
  by (cases c) simp_all

lemma dumpSections_first_missing:
  assumes "required c" and "\<not> hasSection obj c"
  shows "\<exists>c. required c \<and> \<not> hasSection obj c \<and> MissingRequiredSectionError f c (dumpSections obj f)"
proof (cases "hasSection obj Field")
  case False
  then show ?thesis using dumpSections_no_field [of obj f] by (intro exI [of _ Field]) simp
next
  case f: True
  show ?thesis
  proof (cases "hasSection obj TypeRef")
    case False
    with f show ?thesis
      using dumpSections_no_typeref [of obj f] by (intro exI [of _ TypeRef]) simp
  next
    case True
    with f assms have "\<not> hasSection obj ReflectionStrings"
      by (auto simp: required_cases)
    with f True show ?thesis
      using dumpSections_no_reflstr [of obj f] by (intro exI [of _ ReflectionStrings]) simp
  qed
qed

subsection \<open>Missing required sections\<close>

text \<open>
  C2. When the object file looked into (the binary itself, or the selected slice) has
  no section for at least one required category, the run fails with the
  missing-section error for a required category that is indeed missing: it writes the
  file name and the text of that category and of no other, returns \<^verbatim>\<open>EXIT_FAILURE\<close>,
  and hands no \<^verbatim>\<open>ReflectionInfo\<close> to the builder.
\<close>

theorem missing_required_section_error:
  assumes "createBinary binaryFilename = Inr binaryFile"
    and "objectFileOf binaryFile arch = Some obj"
    and "\<exists>c. required c \<and> \<not> hasSection obj c"
  shows "\<exists>c. required c \<and> \<not> hasSection obj c \<and>
           (\<forall>c'. MissingRequiredSectionError binaryFilename c'
                   (doDumpReflectionSections createBinary binaryFilename arch) \<longleftrightarrow> c' = c) \<and>
           info (doDumpReflectionSections createBinary binaryFilename arch) = None"
proof -
  from assms(1,2) obtain cs where
    run: "doDumpReflectionSections createBinary binaryFilename arch =
            after cs (dumpSections obj binaryFilename)"
    using doDump_selected by blast
  from assms(3) obtain c where
    c: "required c" "\<not> hasSection obj c"
       "MissingRequiredSectionError binaryFilename c (dumpSections obj binaryFilename)"
    using dumpSections_first_missing by blast
  have "info (dumpSections obj binaryFilename) = None"
    using c(3) by (simp add: MissingRequiredSectionError_def split: option.splits)
  moreover have "\<forall>c'. MissingRequiredSectionError binaryFilename c'
                   (dumpSections obj binaryFilename) \<longleftrightarrow> c' = c"
    using c(3) MissingRequiredSectionError_unique by blast
  ultimately show ?thesis
    using c(1,2) by (auto simp: run MissingRequiredSectionError_after after_simps)
qed

lemma hasSection_fieldOnly:
  "hasSection fieldOnly Field" "\<not> hasSection fieldOnly TypeRef"
  "\<not> hasSection fieldOnly ReflectionStrings"
  by (simp_all add: hasSection_def fieldOnly_def fieldSectionNames_def typeRefSectionNames_def
        reflectionStringsSectionNames_def)

theorem missing_required_section_error_witness:
  "exampleFiles ''partial.o'' = Inr (ObjectFileBinary fieldOnly) \<and>
   objectFileOf (ObjectFileBinary fieldOnly) ''x86_64'' = Some fieldOnly \<and>
   (\<exists>c. required c \<and> \<not> hasSection fieldOnly c) \<and>
   (\<exists>c. required c \<and> \<not> hasSection fieldOnly c \<and>
      (\<forall>c'. MissingRequiredSectionError ''partial.o'' c'
              (doDumpReflectionSections exampleFiles ''partial.o'' ''x86_64'') \<longleftrightarrow> c' = c) \<and>
      info (doDumpReflectionSections exampleFiles ''partial.o'' ''x86_64'') = None)"
proof -
  have 1: "exampleFiles ''partial.o'' = Inr (ObjectFileBinary fieldOnly)"
    by (simp add: exampleFiles_def)
  have 2: "objectFileOf (ObjectFileBinary fieldOnly) ''x86_64'' = Some fieldOnly"
    by (simp add: objectFileOf_def)
  have 3: "\<exists>c. required c \<and> \<not> hasSection fieldOnly c"
    using hasSection_fieldOnly(2) by (intro exI [of _ TypeRef]) simp
  from 1 2 3 missing_required_section_error
    [where createBinary = exampleFiles and binaryFilename = "''partial.o''", OF 1 2 3] show ?thesis by blast
qed

lemma dumpSections_Returned: "\<exists>n. outcome (dumpSections obj f) = Returned n"
  by (simp add: dumpSections_def Let_def split: option.splits)

lemma dumpSections_all_required:
  assumes "hasSection obj Field" "hasSection obj TypeRef" "hasSection obj ReflectionStrings"
  shows "\<exists>s1 s4 s5. getSectionRef obj fieldSectionNames = Some s1 \<and>
           getSectionRef obj typeRefSectionNames = Some s4 \<and>
           getSectionRef obj reflectionStringsSectionNames = Some s5"
  using assms by (auto simp: hasSection_getSectionRef)

text \<open>
  C6. Which category is reported: Field when it is missing, whatever else is missing;
  TypeRef when Field is there and TypeRef is missing; ReflectionStrings when only it is
  missing of the three. With the three required sections the run succeeds, whether or
  not the optional AssociatedType and BuiltinType sections exist, and both of them
  have been looked up.
\<close>

theorem first_missing_required_section:
  assumes "createBinary binaryFilename = Inr binaryFile"
    and "objectFileOf binaryFile arch = Some obj"
  shows "(\<not> hasSection obj Field \<longrightarrow>
            MissingRequiredSectionError binaryFilename Field
              (doDumpReflectionSections createBinary binaryFilename arch)) \<and>
         (hasSection obj Field \<and> \<not> hasSection obj TypeRef \<longrightarrow>
            MissingRequiredSectionError binaryFilename TypeRef
              (doDumpReflectionSections createBinary binaryFilename arch)) \<and>
         (hasSection obj Field \<and> hasSection obj TypeRef \<and> \<not> hasSection obj ReflectionStrings \<longrightarrow>
            MissingRequiredSectionError binaryFilename ReflectionStrings
              (doDumpReflectionSections createBinary binaryFilename arch)) \<and>
         (hasSection obj Field \<and> hasSection obj TypeRef \<and> hasSection obj ReflectionStrings \<longrightarrow>
            outcome (doDumpReflectionSections createBinary binaryFilename arch) =
              Returned EXIT_SUCCESS \<and>
            GetSectionRef (aliases AssociatedType) \<in>
              set (calls (doDumpReflectionSections createBinary binaryFilename arch)) \<and>
            GetSectionRef (aliases BuiltinType) \<in>
              set (calls (doDumpReflectionSections createBinary binaryFilename arch)))"
proof -
  from assms obtain cs where
    run: "doDumpReflectionSections createBinary binaryFilename arch =
            after cs (dumpSections obj binaryFilename)"
    using doDump_selected by blast
  show ?thesis
  proof (intro conjI impI)
    assume "\<not> hasSection obj Field"
    then show "MissingRequiredSectionError binaryFilename Field
                 (doDumpReflectionSections createBinary binaryFilename arch)"
      by (simp add: run MissingRequiredSectionError_after dumpSections_no_field)
  next
    assume "hasSection obj Field \<and> \<not> hasSection obj TypeRef"
    then show "MissingRequiredSectionError binaryFilename TypeRef
                 (doDumpReflectionSections createBinary binaryFilename arch)"
      by (simp add: run MissingRequiredSectionError_after dumpSections_no_typeref)
  next
    assume "hasSection obj Field \<and> hasSection obj TypeRef \<and> \<not> hasSection obj ReflectionStrings"
    then show "MissingRequiredSectionError binaryFilename ReflectionStrings
                 (doDumpReflectionSections createBinary binaryFilename arch)"
      by (simp add: run MissingRequiredSectionError_after dumpSections_no_reflstr)
  next
    assume all: "hasSection obj Field \<and> hasSection obj TypeRef \<and> hasSection obj ReflectionStrings"
    then obtain s1 s4 s5 where
      "getSectionRef obj fieldSectionNames = Some s1"
      "getSectionRef obj typeRefSectionNames = Some s4"
      "getSectionRef obj reflectionStringsSectionNames = Some s5"
      using dumpSections_all_required by blast
    note ok = dumpSections_success [OF this, of binaryFilename]
    show "outcome (doDumpReflectionSections createBinary binaryFilename arch) =
            Returned EXIT_SUCCESS"
      by (simp add: run after_simps ok)
    show "GetSectionRef (aliases AssociatedType) \<in>
            set (calls (doDumpReflectionSections createBinary binaryFilename arch))"
      by (simp add: run after_simps ok)
    show "GetSectionRef (aliases BuiltinType) \<in>
            set (calls (doDumpReflectionSections createBinary binaryFilename arch))"
      by (simp add: run after_simps ok)
  qed
qed

theorem first_missing_required_section_witness:
  "exampleFiles ''partial.o'' = Inr (ObjectFileBinary fieldOnly) \<and>
   objectFileOf (ObjectFileBinary fieldOnly) ''arm64'' = Some fieldOnly \<and>
   hasSection fieldOnly Field \<and> \<not> hasSection fieldOnly TypeRef \<and>
   \<not> hasSection fieldOnly ReflectionStrings \<and>
   MissingRequiredSectionError ''partial.o'' TypeRef
     (doDumpReflectionSections exampleFiles ''partial.o'' ''arm64'')"
proof -
  have 1: "exampleFiles ''partial.o'' = Inr (ObjectFileBinary fieldOnly)"
    by (simp add: exampleFiles_def)
  have 2: "objectFileOf (ObjectFileBinary fieldOnly) ''arm64'' = Some fieldOnly"
    by (simp add: objectFileOf_def)
  from 1 2 hasSection_fieldOnly first_missing_required_section
    [where createBinary = exampleFiles and binaryFilename = "''partial.o''", OF 1 2]
  show ?thesis by blast
qed


lemma contentsRange_ordered_iff:
  "Begin (contentsRange sec) \<le> End (contentsRange sec) \<longleftrightarrow> noWrap (getContents sec)"
  by (simp add: contentsRange_def StringRef_begin_def StringRef_end_def noWrap_def
        no_olen_add_nat)

lemma contentsRange_nonempty_iff:
  "Begin (contentsRange sec) < End (contentsRange sec) \<longleftrightarrow>
     noWrap (getContents sec) \<and> 0 < Length (getContents sec)"
proof -
  have "Begin (contentsRange sec) = End (contentsRange sec) \<longleftrightarrow> Length (getContents sec) = 0"
    by (simp add: contentsRange_def StringRef_begin_def StringRef_end_def)
  then show ?thesis
    using contentsRange_ordered_iff [of sec] by (auto simp: less_le word_gt_0)
qed

lemma absentSentinel_ordered: "Begin absentSentinel \<le> End absentSentinel"
  by (simp add: absentSentinel_def)

lemma dumpSections_info:
  assumes "info (dumpSections obj f) = Some ri"
  shows "ImageName ri = f \<and>
         (\<forall>c. case getSectionRef obj (aliases c) of
                 Some sec \<Rightarrow> bundleRange ri c = contentsRange sec
               | None \<Rightarrow> \<not> required c \<and> bundleRange ri c = absentSentinel)"
proof -
  from assms obtain s1 s4 s5 where found:
    "getSectionRef obj fieldSectionNames = Some s1"
    "getSectionRef obj typeRefSectionNames = Some s4"
    "getSectionRef obj reflectionStringsSectionNames = Some s5"
    by (auto simp: dumpSections_def Let_def split: option.splits)
  from assms have ri: "ri = \<lparr>ImageName = f,
       fieldSection = contentsRange s1,
       associatedTypeSection =
         (case getSectionRef obj associatedTypeSectionNames of
            None \<Rightarrow> absentSentinel | Some s \<Rightarrow> contentsRange s),
       builtinTypeSection =
         (case getSectionRef obj builtinTypeSectionNames of
            None \<Rightarrow> absentSentinel | Some s \<Rightarrow> contentsRange s),
       typeRefSection = contentsRange s4,
       reflectionStringsSection = contentsRange s5\<rparr>"
    by (simp add: dumpSections_success [OF found])
  show ?thesis
  proof (intro conjI allI)
    show "ImageName ri = f" by (simp add: ri)
    fix c
    show "case getSectionRef obj (aliases c) of
            Some sec \<Rightarrow> bundleRange ri c = contentsRange sec
          | None \<Rightarrow> \<not> required c \<and> bundleRange ri c = absentSentinel"
      by (cases c) (simp_all add: ri found split: option.splits)
  qed
qed

lemma doDump_info:
  assumes "info (doDumpReflectionSections createBinary f arch) = Some ri"
  shows "\<exists>b obj. createBinary f = Inr b \<and> objectFileOf b arch = Some obj \<and>
           info (dumpSections obj f) = Some ri"
  using assms
  by (auto simp: doDumpReflectionSections_def unwrap_def after_simps objectFileOf_def
           split: sum.splits Binary.splits)

lemma findSection_in_table: "findSection obj names = Some sec \<Longrightarrow> sec \<in> set (sections obj)"
  by (auto simp: findSection_def find_Some_iff)

lemma dumpSections_info_ranges:
  assumes "info (dumpSections obj f) = Some ri"
  shows "case findSection obj (aliases c) of
           Some sec \<Rightarrow>
             bundleRange ri c = contentsRange sec \<and>
             (Begin (bundleRange ri c) \<le> End (bundleRange ri c) \<longleftrightarrow> noWrap (getContents sec))
         | None \<Rightarrow>
             bundleRange ri c = absentSentinel \<and>
             Begin (bundleRange ri c) \<le> End (bundleRange ri c)"
  using dumpSections_info [OF assms, THEN conjunct2, THEN spec, of c]
  by (simp add: findSection_def getSectionRef_find contentsRange_ordered_iff
        absentSentinel_ordered split: option.splits)

lemma dumpSections_info_ordered:
  assumes "info (dumpSections obj f) = Some ri"
    and "\<forall>sec \<in> set (sections obj). noWrap (getContents sec)"
  shows "Begin (bundleRange ri c) \<le> End (bundleRange ri c)"
  using dumpSections_info_ranges [OF assms(1), of c] assms(2)
  by (auto split: option.splits dest: findSection_in_table)

subsection \<open>The bundle\<close>

text \<open>
  C9, as the code has it. The code never compares the start of a range with its end:
  it records \<^verbatim>\<open>begin()\<close> and \<^verbatim>\<open>end()\<close> of the contents as they are. Every range of
  a \<^verbatim>\<open>ReflectionInfo\<close> that a run hands to the builder is either the absent sentinel,
  whose start is at its end, or the range of the contents of the first section of its
  category in the object file looked into, and then its start is at or before its end
  exactly when those contents do not wrap around the 64-bit address space. So when no
  section of the object file wraps around, every range of the bundle has its start at
  or before its end. The same holds of each range built from the contents of a section.
\<close>

theorem bundle_ranges_ordered:
  "(\<forall>ri. info (doDumpReflectionSections createBinary binaryFilename arch) = Some ri \<longrightarrow>
      (\<exists>binaryFile obj.
         createBinary binaryFilename = Inr binaryFile \<and>
         objectFileOf binaryFile arch = Some obj \<and>
         (\<forall>c. case findSection obj (aliases c) of
                 Some sec \<Rightarrow>
                   bundleRange ri c = contentsRange sec \<and>
                   (Begin (bundleRange ri c) \<le> End (bundleRange ri c) \<longleftrightarrow>
                      noWrap (getContents sec))
               | None \<Rightarrow>
                   bundleRange ri c = absentSentinel \<and>
                   Begin (bundleRange ri c) \<le> End (bundleRange ri c)) \<and>
         ((\<forall>sec \<in> set (sections obj). noWrap (getContents sec)) \<longrightarrow>
            (\<forall>c. Begin (bundleRange ri c) \<le> End (bundleRange ri c))))) \<and>
   (\<forall>sec. Begin (contentsRange sec) \<le> End (contentsRange sec) \<longleftrightarrow> noWrap (getContents sec)) \<and>
   Begin absentSentinel \<le> End absentSentinel"
proof (intro conjI allI impI)
  fix ri
  assume "info (doDumpReflectionSections createBinary binaryFilename arch) = Some ri"
  then obtain b obj where sel: "createBinary binaryFilename = Inr b"
      "objectFileOf b arch = Some obj"
    and ri: "info (dumpSections obj binaryFilename) = Some ri"
    using doDump_info by blast
  show "\<exists>binaryFile obj.
         createBinary binaryFilename = Inr binaryFile \<and>
         objectFileOf binaryFile arch = Some obj \<and>
         (\<forall>c. case findSection obj (aliases c) of
                 Some sec \<Rightarrow>
                   bundleRange ri c = contentsRange sec \<and>
                   (Begin (bundleRange ri c) \<le> End (bundleRange ri c) \<longleftrightarrow>
                      noWrap (getContents sec))
               | None \<Rightarrow>
                   bundleRange ri c = absentSentinel \<and>
                   Begin (bundleRange ri c) \<le> End (bundleRange ri c)) \<and>
         ((\<forall>sec \<in> set (sections obj). noWrap (getContents sec)) \<longrightarrow>
            (\<forall>c. Begin (bundleRange ri c) \<le> End (bundleRange ri c)))"
    using sel dumpSections_info_ranges [OF ri] dumpSections_info_ordered [OF ri]
    by (intro exI [of _ b] exI [of _ obj]) simp
next
  fix sec
  show "Begin (contentsRange sec) \<le> End (contentsRange sec) \<longleftrightarrow> noWrap (getContents sec)"
    by (rule contentsRange_ordered_iff)
next
  show "Begin absentSentinel \<le> End absentSentinel"
    by (rule absentSentinel_ordered)
qed

lemmas example_defs =
  exampleFiles_def doDumpReflectionSections_def unwrap_def after_def dumpSections_def
  getSectionRef_def contentsRange_def StringRef_begin_def StringRef_end_def nullptr_def
  fieldSectionNames_def associatedTypeSectionNames_def builtinTypeSectionNames_def
  typeRefSectionNames_def reflectionStringsSectionNames_def Let_def

lemma run_a_out:
  "doDumpReflectionSections exampleFiles ''a.out'' arch =
     \<lparr>outcome = Returned EXIT_SUCCESS, cerr = [],
      calls = [CreateBinary ''a.out'', GetSectionRef fieldSectionNames,
               GetSectionRef associatedTypeSectionNames, GetSectionRef builtinTypeSectionNames,
               GetSectionRef typeRefSectionNames, GetSectionRef reflectionStringsSectionNames],
      info = Some threeSectionsInfo\<rparr>"
  by (simp add: example_defs threeSections_def threeSectionsInfo_def)

lemma hasSection_threeSections:
  "hasSection threeSections Field" "hasSection threeSections TypeRef"
  "hasSection threeSections ReflectionStrings"
  "\<not> hasSection threeSections AssociatedType" "\<not> hasSection threeSections BuiltinType"
  by (simp_all add: hasSection_def threeSections_def fieldSectionNames_def
        typeRefSectionNames_def reflectionStringsSectionNames_def
        associatedTypeSectionNames_def builtinTypeSectionNames_def)

theorem bundle_ranges_ordered_witness:
  "info (doDumpReflectionSections exampleFiles ''a.out'' ''x86_64'') = Some threeSectionsInfo \<and>
   exampleFiles ''a.out'' = Inr (ObjectFileBinary threeSections) \<and>
   objectFileOf (ObjectFileBinary threeSections) ''x86_64'' = Some threeSections \<and>
   list_all (\<lambda>sec. noWrap (getContents sec)) (sections threeSections) \<and>
   (\<forall>c. Begin (bundleRange threeSectionsInfo c) \<le> End (bundleRange threeSectionsInfo c))"
proof -
  have 1: "info (doDumpReflectionSections exampleFiles ''a.out'' ''x86_64'') =
             Some threeSectionsInfo"
    by (simp add: run_a_out)
  have 2: "exampleFiles ''a.out'' = Inr (ObjectFileBinary threeSections)"
    by (simp add: exampleFiles_def)
  have 3: "objectFileOf (ObjectFileBinary threeSections) ''x86_64'' = Some threeSections"
    by (simp add: objectFileOf_def)
  have 4: "list_all (\<lambda>sec. noWrap (getContents sec)) (sections threeSections)"
    by (simp add: threeSections_def noWrap_def)
  from bundle_ranges_ordered [of exampleFiles "''a.out''" "''x86_64''"] 1
  obtain b obj where sel: "exampleFiles ''a.out'' = Inr b" "objectFileOf b ''x86_64'' = Some obj"
    and ord: "(\<forall>sec \<in> set (sections obj). noWrap (getContents sec)) \<longrightarrow>
            (\<forall>c. Begin (bundleRange threeSectionsInfo c) \<le> End (bundleRange threeSectionsInfo c))"
    by blast
  from sel 2 3 have "obj = threeSections" by simp
  with ord 4 have "\<forall>c. Begin (bundleRange threeSectionsInfo c) \<le> End (bundleRange threeSectionsInfo c)"
    by (simp add: list_all_iff)
  with 1 2 3 4 show ?thesis by blast
qed

text \<open>
  C9 as stated, that every recorded range has its start at or before its end, fails for
  a section whose contents wrap around the address space: the object
  \<open>wrappedFieldSection\<close> has the three required sections, the run succeeds, and the Field
  range ends before it starts.
\<close>

theorem wrapped_section_counterexample:
  "exampleFiles ''wrap.o'' = Inr (ObjectFileBinary wrappedFieldSection) \<and>
   outcome (doDumpReflectionSections exampleFiles ''wrap.o'' ''x86_64'') =
     Returned EXIT_SUCCESS \<and>
   map_option fieldSection (info (doDumpReflectionSections exampleFiles ''wrap.o'' ''x86_64'')) =
     Some \<lparr>Begin = 0xFFFFFFFFFFFFFFF8, End = 8\<rparr> \<and>
   \<not> Begin \<lparr>Begin = 0xFFFFFFFFFFFFFFF8, End = 8 :: 64 word\<rparr>
       \<le> End \<lparr>Begin = 0xFFFFFFFFFFFFFFF8, End = 8 :: 64 word\<rparr>"
  by (simp add: example_defs wrappedFieldSection_def)

text \<open>
  C3, as the code has it. When the object file has the three required sections, the
  run succeeds and hands over a \<^verbatim>\<open>ReflectionInfo\<close> with the file name, in which each
  category with a section maps to the range of the contents of the first such section,
  and each category without a section is optional and maps to the absent sentinel.
  The range of a section has its start at or before its end exactly when the contents
  do not wrap around the 64-bit address space, and its start strictly before its end
  exactly when, in addition, the section has at least one byte.
\<close>

theorem complete_binary_bundle:
  assumes "createBinary binaryFilename = Inr binaryFile"
    and "objectFileOf binaryFile arch = Some obj"
    and "hasSection obj Field"
    and "hasSection obj TypeRef"
    and "hasSection obj ReflectionStrings"
  shows "outcome (doDumpReflectionSections createBinary binaryFilename arch) =
           Returned EXIT_SUCCESS \<and>
         cerr (doDumpReflectionSections createBinary binaryFilename arch) = [] \<and>
         (\<exists>ri. info (doDumpReflectionSections createBinary binaryFilename arch) = Some ri \<and>
            ImageName ri = binaryFilename \<and>
            (\<forall>c. case findSection obj (aliases c) of
                    Some sec \<Rightarrow>
                      bundleRange ri c = contentsRange sec \<and>
                      (Begin (bundleRange ri c) \<le> End (bundleRange ri c) \<longleftrightarrow>
                         noWrap (getContents sec)) \<and>
                      (Begin (bundleRange ri c) < End (bundleRange ri c) \<longleftrightarrow>
                         noWrap (getContents sec) \<and> 0 < Length (getContents sec))
                  | None \<Rightarrow> \<not> required c \<and> bundleRange ri c = absentSentinel))"
proof -
  from assms(1,2) obtain cs where
    run: "doDumpReflectionSections createBinary binaryFilename arch =
            after cs (dumpSections obj binaryFilename)"
    using doDump_selected by blast
  from assms(3-5) obtain s1 s4 s5 where
    "getSectionRef obj fieldSectionNames = Some s1"
    "getSectionRef obj typeRefSectionNames = Some s4"
    "getSectionRef obj reflectionStringsSectionNames = Some s5"
    using dumpSections_all_required by blast
  note ok = dumpSections_success [OF this, of binaryFilename]
  then obtain ri where ri: "info (dumpSections obj binaryFilename) = Some ri"
    by simp
  have "case findSection obj (aliases c) of
          Some sec \<Rightarrow>
            bundleRange ri c = contentsRange sec \<and>
            (Begin (bundleRange ri c) \<le> End (bundleRange ri c) \<longleftrightarrow>
               noWrap (getContents sec)) \<and>
            (Begin (bundleRange ri c) < End (bundleRange ri c) \<longleftrightarrow>
               noWrap (getContents sec) \<and> 0 < Length (getContents sec))
        | None \<Rightarrow> \<not> required c \<and> bundleRange ri c = absentSentinel" for c
    using dumpSections_info [OF ri, THEN conjunct2, THEN spec, of c]
    by (simp add: findSection_def getSectionRef_find contentsRange_ordered_iff
          contentsRange_nonempty_iff split: option.splits)
  moreover have "ImageName ri = binaryFilename"
    using dumpSections_info [OF ri] by simp
  ultimately show ?thesis
    using ri by (simp add: run after_simps ok)
qed

theorem complete_binary_bundle_witness:
  "exampleFiles ''fat'' =
     Inr (MachOUniversalBinary [(''x86_64'', fieldOnly), (''arm64'', threeSections)]) \<and>
   objectFileOf (MachOUniversalBinary [(''x86_64'', fieldOnly), (''arm64'', threeSections)])
     ''arm64'' = Some threeSections \<and>
   hasSection threeSections Field \<and> hasSection threeSections TypeRef \<and>
   hasSection threeSections ReflectionStrings \<and>
   outcome (doDumpReflectionSections exampleFiles ''fat'' ''arm64'') = Returned EXIT_SUCCESS \<and>
   (\<exists>ri. info (doDumpReflectionSections exampleFiles ''fat'' ''arm64'') = Some ri \<and>
      ImageName ri = ''fat'' \<and>
      (\<forall>c. case findSection threeSections (aliases c) of
              Some sec \<Rightarrow>
                bundleRange ri c = contentsRange sec \<and>
                (Begin (bundleRange ri c) \<le> End (bundleRange ri c) \<longleftrightarrow>
                   noWrap (getContents sec)) \<and>
                (Begin (bundleRange ri c) < End (bundleRange ri c) \<longleftrightarrow>
                   noWrap (getContents sec) \<and> 0 < Length (getContents sec))
            | None \<Rightarrow> \<not> required c \<and> bundleRange ri c = absentSentinel))"
proof -
  have 1: "exampleFiles ''fat'' =
     Inr (MachOUniversalBinary [(''x86_64'', fieldOnly), (''arm64'', threeSections)])"
    by (simp add: exampleFiles_def)
  have 2: "objectFileOf
     (MachOUniversalBinary [(''x86_64'', fieldOnly), (''arm64'', threeSections)])
     ''arm64'' = Some threeSections"
    by (simp add: objectFileOf_def)
  note 3 = hasSection_threeSections(1-3)
  from 1 2 3 complete_binary_bundle
    [where createBinary = exampleFiles and binaryFilename = "''fat''", OF 1 2 3]
  show ?thesis by blast
qed

text \<open>
  C3 as stated, that every required category maps to a range with start strictly
  before end, fails for a section without bytes: the object \<open>emptyFieldSection\<close> has
  the three required sections, the run succeeds, and the Field range is empty.
\<close>

theorem empty_required_section_counterexample:
  "exampleFiles ''empty.o'' = Inr (ObjectFileBinary emptyFieldSection) \<and>
   hasSection emptyFieldSection Field \<and> hasSection emptyFieldSection TypeRef \<and>
   hasSection emptyFieldSection ReflectionStrings \<and>
   outcome (doDumpReflectionSections exampleFiles ''empty.o'' ''x86_64'') =
     Returned EXIT_SUCCESS \<and>
   map_option fieldSection (info (doDumpReflectionSections exampleFiles ''empty.o'' ''x86_64'')) =
     Some \<lparr>Begin = 4096, End = 4096\<rparr>"
  by (simp add: example_defs emptyFieldSection_def hasSection_def)

text \<open>
  C4. When the object file has the three required sections, the run succeeds with
  nothing written to \<^verbatim>\<open>std::cerr\<close>, and every category without a section (which can
  only be AssociatedType or BuiltinType) is recorded as \<^verbatim>\<open>{nullptr, nullptr}\<close>.
\<close>

theorem optional_sections_absent:
  assumes "createBinary binaryFilename = Inr binaryFile"
    and "objectFileOf binaryFile arch = Some obj"
    and "hasSection obj Field"
    and "hasSection obj TypeRef"
    and "hasSection obj ReflectionStrings"
  shows "outcome (doDumpReflectionSections createBinary binaryFilename arch) =
           Returned EXIT_SUCCESS \<and>
         cerr (doDumpReflectionSections createBinary binaryFilename arch) = [] \<and>
         (\<exists>ri. info (doDumpReflectionSections createBinary binaryFilename arch) = Some ri \<and>
            (\<forall>c. \<not> hasSection obj c \<longrightarrow>
               bundleRange ri c = \<lparr>Begin = nullptr, End = nullptr\<rparr>))"
proof -
  from assms(1,2) obtain cs where
    run: "doDumpReflectionSections createBinary binaryFilename arch =
            after cs (dumpSections obj binaryFilename)"
    using doDump_selected by blast
  from assms(3-5) obtain s1 s4 s5 where
    "getSectionRef obj fieldSectionNames = Some s1"
    "getSectionRef obj typeRefSectionNames = Some s4"
    "getSectionRef obj reflectionStringsSectionNames = Some s5"
    using dumpSections_all_required by blast
  note ok = dumpSections_success [OF this, of binaryFilename]
  then obtain ri where ri: "info (dumpSections obj binaryFilename) = Some ri"
    by simp
  have "\<not> hasSection obj c \<longrightarrow> bundleRange ri c = \<lparr>Begin = nullptr, End = nullptr\<rparr>" for c
    using dumpSections_info [OF ri, THEN conjunct2, THEN spec, of c]
    by (auto simp: hasSection_getSectionRef absentSentinel_def)
  then show ?thesis
    using ri by (simp add: run after_simps ok)
qed

theorem optional_sections_absent_witness:
  "exampleFiles ''a.out'' = Inr (ObjectFileBinary threeSections) \<and>
   objectFileOf (ObjectFileBinary threeSections) ''x86_64'' = Some threeSections \<and>
   hasSection threeSections Field \<and> hasSection threeSections TypeRef \<and>
   hasSection threeSections ReflectionStrings \<and>
   \<not> hasSection threeSections AssociatedType \<and> \<not> hasSection threeSections BuiltinType \<and>
   outcome (doDumpReflectionSections exampleFiles ''a.out'' ''x86_64'') = Returned EXIT_SUCCESS \<and>
   info (doDumpReflectionSections exampleFiles ''a.out'' ''x86_64'') = Some threeSectionsInfo \<and>
   bundleRange threeSectionsInfo AssociatedType = \<lparr>Begin = nullptr, End = nullptr\<rparr> \<and>
   bundleRange threeSectionsInfo BuiltinType = \<lparr>Begin = nullptr, End = nullptr\<rparr>"
proof -
  have 1: "exampleFiles ''a.out'' = Inr (ObjectFileBinary threeSections)"
    by (simp add: exampleFiles_def)
  have 2: "objectFileOf (ObjectFileBinary threeSections) ''x86_64'' = Some threeSections"
    by (simp add: objectFileOf_def)
  note 3 = hasSection_threeSections(1-3)
  have 4: "info (doDumpReflectionSections exampleFiles ''a.out'' ''x86_64'') =
             Some threeSectionsInfo"
    by (simp add: run_a_out)
  from optional_sections_absent
    [where createBinary = exampleFiles and binaryFilename = "''a.out''", OF 1 2 3]
  have "outcome (doDumpReflectionSections exampleFiles ''a.out'' ''x86_64'') =
          Returned EXIT_SUCCESS \<and>
        (\<forall>c. \<not> hasSection threeSections c \<longrightarrow>
           bundleRange threeSectionsInfo c = \<lparr>Begin = nullptr, End = nullptr\<rparr>)"
    using 4 by auto
  with 1 2 3 4 hasSection_threeSections(4,5) show ?thesis by blast
qed


lemma getObjectForArch_not_found:
  "arch \<notin> set (map fst universal) \<Longrightarrow> getObjectForArch universal arch = Inl arch_not_found"
  by (induction universal arch rule: getObjectForArch.induct) auto

lemma getObjectForArch_found:
  "getObjectForArch universal arch = Inr obj \<Longrightarrow> (arch, obj) \<in> set universal"
  by (induction universal arch rule: getObjectForArch.induct) (auto split: if_splits)

subsection \<open>Loading and slice selection\<close>

text \<open>
  C5. For a universal binary with no slice of the requested architecture, the run ends
  in \<^verbatim>\<open>unwrap\<close> with the architecture-not-found error and \<^verbatim>\<open>EXIT_FAILURE\<close>, after the
  calls to load the binary and to select the slice and no other: no section is looked
  up in any slice and nothing is handed to the builder.
\<close>

theorem unknown_architecture_fails:
  assumes "createBinary binaryFilename = Inr (MachOUniversalBinary universal)"
    and "arch \<notin> set (map fst universal)"
  shows "doDumpReflectionSections createBinary binaryFilename arch =
           \<lparr>outcome = Exited EXIT_FAILURE,
            cerr = [Text ''swift-reflection-test error: '', Message arch_not_found,
                    Text ''\<newline>''],
            calls = [CreateBinary binaryFilename, GetObjectForArch arch],
            info = None\<rparr>"
  using assms
  by (simp add: doDumpReflectionSections_def getObjectForArch_not_found unwrap_def after_def)

theorem unknown_architecture_fails_witness:
  "exampleFiles ''fat'' =
     Inr (MachOUniversalBinary [(''x86_64'', fieldOnly), (''arm64'', threeSections)]) \<and>
   ''armv7'' \<notin> set (map fst [(''x86_64'', fieldOnly), (''arm64'', threeSections)]) \<and>
   doDumpReflectionSections exampleFiles ''fat'' ''armv7'' =
     \<lparr>outcome = Exited EXIT_FAILURE,
      cerr = [Text ''swift-reflection-test error: '', Message arch_not_found,
              Text ''\<newline>''],
      calls = [CreateBinary ''fat'', GetObjectForArch ''armv7''],
      info = None\<rparr>"
proof -
  have 1: "exampleFiles ''fat'' =
     Inr (MachOUniversalBinary [(''x86_64'', fieldOnly), (''arm64'', threeSections)])"
    by (simp add: exampleFiles_def)
  have 2: "''armv7'' \<notin> set (map fst [(''x86_64'', fieldOnly), (''arm64'', threeSections)])"
    by simp
  from 1 2 unknown_architecture_fails
    [where createBinary = exampleFiles and binaryFilename = "''fat''", OF 1 2]
  show ?thesis by blast
qed


lemma unwrap_calls: "unwrap v = Inl stopped \<Longrightarrow> calls stopped = []"
  by (auto simp: unwrap_def split: sum.splits)

lemma doDump_CastFailed:
  "outcome (doDumpReflectionSections createBinary f arch) = CastFailed \<longleftrightarrow>
     createBinary f = Inr Archive"
  using dumpSections_Returned
  by (auto simp: doDumpReflectionSections_def after_simps unwrap_def
           split: sum.splits Binary.splits)
     (metis outcome.distinct(3))+





text \<open>
  When \<^verbatim>\<open>createBinary\<close> reports an error, the run ends in \<^verbatim>\<open>unwrap\<close> after that one
  call: no slice is selected and no section is looked up.
\<close>

lemma createBinary_error_exits:
  assumes "createBinary binaryFilename = Inl e"
  shows "doDumpReflectionSections createBinary binaryFilename arch =
           \<lparr>outcome = Exited EXIT_FAILURE,
            cerr = [Text ''swift-reflection-test error: '', Message e, Text ''\<newline>''],
            calls = [CreateBinary binaryFilename],
            info = None\<rparr>"
  using assms by (simp add: doDumpReflectionSections_def unwrap_def after_def)

text \<open>
  C8. An input that \<^verbatim>\<open>createBinary\<close> accepts and that is neither an object file nor a
  universal binary, such as a static archive, is not rejected by the load: the run
  reaches the cast of line 111 and fails there, not in \<^verbatim>\<open>unwrap\<close>.
\<close>

theorem archive_reaches_cast:
  "exampleFiles ''libswiftCore.a'' = Inr Archive \<and>
   doDumpReflectionSections exampleFiles ''libswiftCore.a'' ''x86_64'' =
     \<lparr>outcome = CastFailed, cerr = [], calls = [CreateBinary ''libswiftCore.a''],
      info = None\<rparr> \<and>
   \<not> unwrapError invalid_file_type
       (doDumpReflectionSections exampleFiles ''libswiftCore.a'' ''x86_64'')"
  by (simp add: exampleFiles_def doDumpReflectionSections_def unwrap_def unwrapError_def)

end
